theory Spec2Isabelle
  imports Complex_Main "HOL-Library.AList" "HOL-Library.Sublist" "HOL-Library.Multiset"
begin

section \<open>The blog search engine of \<^verbatim>\<open>search_engine.py\<close>\<close>

text \<open>
  A shallow embedding of the class \<^verbatim>\<open>MinimalBlogSearchEngine\<close>. Conventions:
  \<^item> a Python \<^verbatim>\<open>str\<close> is a \<open>string\<close>, a list of characters, each a code point below
    256 (ASCII and Latin-1), on which \<^verbatim>\<open>lower\<close>, \<^verbatim>\<open>strip\<close> and the classes of characters
    are those of Python; text with other code points is outside the model;
  \<^item> a numpy vector is a list of reals: floating-point rounding is idealised as exact
    arithmetic, so only the algorithm is modelled, not its rounding;
  \<^item> a Python \<^verbatim>\<open>dict\<close> is an association list in insertion order, written with
    \<open>AList.update\<close> (an existing key keeps its position, a new key goes last) and read
    with \<open>map_of\<close>;
  \<^item> an exception is a value \<open>Inl e\<close> of a sum type; the \<^verbatim>\<open>except Exception\<close> handler of
    \<^verbatim>\<open>_index_single_blog\<close> is the branch that consumes it;
  \<^item> \<^verbatim>\<open>top_k\<close> is a Python \<^verbatim>\<open>int\<close>, hence an \<open>int\<close>, and a slice \<^verbatim>\<open>xs[:k]\<close> with negative
    \<open>k\<close> drops from the end.
\<close>

subsection \<open>Python strings\<close>

text \<open>\<^verbatim>\<open>c.isspace()\<close>, which \<^verbatim>\<open>strip\<close> goes by.\<close>

definition is_space :: "char \<Rightarrow> bool" where
  "is_space c = (c \<in> set [CHR '' '', CHR 0x09, CHR 0x0A, CHR 0x0B, CHR 0x0C, CHR 0x0D,
                          CHR 0x1C, CHR 0x1D, CHR 0x1E, CHR 0x1F, CHR 0x85, CHR 0xA0])"

definition strip :: "string \<Rightarrow> string" where
  "strip s = rev (dropWhile is_space (rev (dropWhile is_space s)))"

text \<open>The characters \<^verbatim>\<open>lower\<close> changes: \<^verbatim>\<open>A\<close> to \<^verbatim>\<open>Z\<close> and the capital letters of
  Latin-1, each 32 below its small letter.\<close>

definition is_upper :: "char \<Rightarrow> bool" where
  "is_upper c =
     (let n = (of_char c :: nat)
      in (65 \<le> n \<and> n \<le> 90) \<or> (192 \<le> n \<and> n \<le> 214) \<or> (216 \<le> n \<and> n \<le> 222))"

definition lower_char :: "char \<Rightarrow> char" where
  "lower_char c = (if is_upper c then char_of ((of_char c :: nat) + 32) else c)"

text \<open>\<^verbatim>\<open>c.isalpha()\<close>; the decimal digits, which the pattern \<^verbatim>\<open>\d\<close> matches; and the word
  characters, which the pattern \<^verbatim>\<open>\w\<close> matches: letters, the underscore, and the characters
  that are digits or numbers to Python (also the superscripts and the fractions of
  Latin-1).\<close>

definition is_alpha :: "char \<Rightarrow> bool" where
  "is_alpha c =
     (let n = (of_char c :: nat)
      in (65 \<le> n \<and> n \<le> 90) \<or> (97 \<le> n \<and> n \<le> 122) \<or> n = 170 \<or> n = 181 \<or> n = 186 \<or>
         (192 \<le> n \<and> n \<le> 214) \<or> (216 \<le> n \<and> n \<le> 246) \<or> 248 \<le> n)"

definition is_decimal :: "char \<Rightarrow> bool" where
  "is_decimal c = (48 \<le> (of_char c :: nat) \<and> (of_char c :: nat) \<le> 57)"

definition is_word_char :: "char \<Rightarrow> bool" where
  "is_word_char c =
     (let n = (of_char c :: nat)
      in is_alpha c \<or> is_decimal c \<or> n = 95 \<or> n = 178 \<or> n = 179 \<or> n = 185 \<or>
         (188 \<le> n \<and> n \<le> 190))"

definition lower :: "string \<Rightarrow> string" where
  "lower s = map lower_char s"

text \<open>\<^verbatim>\<open>s.startswith(p)\<close> is \<open>prefix p s\<close>, \<^verbatim>\<open>s.endswith(p)\<close> is \<open>suffix p s\<close> and
  \<^verbatim>\<open>w in s\<close> is \<open>sublist w s\<close>.\<close>

text \<open>\<^verbatim>\<open>s.split('\n')\<close>: never empty, one more piece than there are newlines.\<close>

fun split_lines :: "string \<Rightarrow> string list" where
  "split_lines [] = [[]]"
| "split_lines (c # cs) =
     (if c = CHR 0x0A then [] # split_lines cs
      else (case split_lines cs of [] \<Rightarrow> [[c]] | l # ls \<Rightarrow> (c # l) # ls))"

text \<open>\<^verbatim>\<open>'\n'.join(ls)\<close>.\<close>

fun join_lines :: "string list \<Rightarrow> string" where
  "join_lines [] = []"
| "join_lines [l] = l"
| "join_lines (l # m # ls) = l @ CHR 0x0A # join_lines (m # ls)"

text \<open>\<^verbatim>\<open>s.replace(pat, '')\<close>: every non-overlapping occurrence of \<open>pat\<close>, found left to
  right, is removed.\<close>

function remove_all :: "string \<Rightarrow> string \<Rightarrow> string" where
  "remove_all pat [] = []"
| "remove_all pat (c # cs) =
     (if pat \<noteq> [] \<and> prefix pat (c # cs) then remove_all pat (drop (length pat) (c # cs))
      else c # remove_all pat cs)"
  by pat_completeness auto
termination
  by (relation "measure (\<lambda>(pat, s). length s)") (auto simp: Suc_le_eq)

text \<open>A slice \<^verbatim>\<open>xs[:k]\<close> for a Python \<^verbatim>\<open>int\<close> \<open>k\<close>.\<close>

definition py_slice_to :: "'a list \<Rightarrow> int \<Rightarrow> 'a list" where
  "py_slice_to xs k = (if 0 \<le> k then take (nat k) xs else take (nat (int (length xs) + k)) xs)"

subsection \<open>The tokenizer\<close>

text \<open>
  Modelled from the spec: \<^verbatim>\<open>gensim.utils.simple_preprocess\<close>, which \<^verbatim>\<open>_clean_text\<close> calls,
  is a library function outside the source tree. Section 4.1 of the specification gives
  the lower-casing and the range of lengths. What a token is follows the library, whose
  pattern is \<^verbatim>\<open>(((?![\d])\w)+)\<close>: a maximal run of word characters that are not decimal
  digits, so that an underscore or a letter beyond ASCII stays inside a token; and a
  token that starts with an underscore is dropped.
\<close>

fun simple_tokenize :: "string \<Rightarrow> string \<Rightarrow> string list" where
  "simple_tokenize cur [] = (if cur = [] then [] else [cur])"
| "simple_tokenize cur (c # cs) =
     (if is_word_char c \<and> \<not> is_decimal c then simple_tokenize (cur @ [c]) cs
      else (if cur = [] then [] else [cur]) @ simple_tokenize [] cs)"

definition simple_preprocess :: "string \<Rightarrow> nat \<Rightarrow> nat \<Rightarrow> string list" where
  "simple_preprocess text min_len max_len =
     filter (\<lambda>token. min_len \<le> length token \<and> length token \<le> max_len \<and>
                     \<not> prefix ''_'' token)
       (simple_tokenize [] (lower text))"

definition clean_text :: "string \<Rightarrow> string list" where
  "clean_text text = simple_preprocess text 3 50"

subsection \<open>Vectors and the embedding table\<close>

type_synonym vec = "real list"

text \<open>All vectors the engine combines have the dimension of the embedding table: the
  rows it averages come from the table, and \<^verbatim>\<open>np.zeros\<close> is given that dimension. numpy
  raises on operands of different shapes; the operations below are meant for vectors of
  one length.\<close>

definition np_zeros :: "nat \<Rightarrow> vec" where
  "np_zeros n = replicate n 0"

definition vec_add :: "vec \<Rightarrow> vec \<Rightarrow> vec" where
  "vec_add u v = map2 (+) u v"

text \<open>\<^verbatim>\<open>np.mean(vectors, axis=0)\<close>: the rows are added up in order and the sum is divided
  by their number. The only call passes a non-empty list.\<close>

fun np_mean :: "vec list \<Rightarrow> vec" where
  "np_mean [] = []"
| "np_mean (v # vs) = map (\<lambda>x. x / real (length (v # vs))) (foldl vec_add v vs)"

definition np_linalg_norm :: "vec \<Rightarrow> real" where
  "np_linalg_norm v = sqrt (sum_list (map (\<lambda>x. x * x) v))"

definition np_dot :: "vec \<Rightarrow> vec \<Rightarrow> real" where
  "np_dot u v = sum_list (map2 (*) u v)"

definition vec_div :: "vec \<Rightarrow> real \<Rightarrow> vec" where
  "vec_div v c = map (\<lambda>x. x / c) v"

text \<open>The \<^verbatim>\<open>KeyedVectors\<close> of the loaded model: the vocabulary in its own order, each
  word with its vector, and the dimension.\<close>

record word2vec =
  table :: "(string \<times> vec) list"
  vector_size :: nat

definition wv :: "word2vec \<Rightarrow> string \<Rightarrow> vec option" where
  "wv m w = map_of (table m) w"

definition key_to_index :: "word2vec \<Rightarrow> string list" where
  "key_to_index m = map fst (table m)"

text \<open>Every stored vector has the table's dimension, as the rows of one matrix do.\<close>

definition wf_model :: "word2vec \<Rightarrow> bool" where
  "wf_model m = list_all (\<lambda>(w, v). length v = vector_size m) (table m)"

subsection \<open>The document embedder\<close>

fun collect_vectors :: "word2vec \<Rightarrow> string list \<Rightarrow> vec list" where
  "collect_vectors m [] = []"
| "collect_vectors m (word # words) =
     (case wv m word of
        Some v \<Rightarrow> v # collect_vectors m words
      | None \<Rightarrow> collect_vectors m words)"

definition create_document_emedding :: "word2vec \<Rightarrow> string list \<Rightarrow> vec" where
  "create_document_emedding m words =
     (let vectors = collect_vectors m words
      in if vectors \<noteq> [] then np_mean vectors else np_zeros (vector_size m))"

subsection \<open>Paths and the file system\<close>

datatype py_exception = OSError | UnicodeDecodeError | RuntimeError

text \<open>\<^verbatim>\<open>os.path.join\<close> and \<^verbatim>\<open>os.path.basename\<close> on POSIX paths.\<close>

definition os_path_join :: "string \<Rightarrow> string \<Rightarrow> string" where
  "os_path_join a b =
     (if prefix ''/'' b then b
      else if a = [] \<or> suffix ''/'' a then a @ b
      else a @ ''/'' @ b)"

definition os_path_basename :: "string \<Rightarrow> string" where
  "os_path_basename p = rev (takeWhile (\<lambda>c. c \<noteq> CHR ''/'') (rev p))"

text \<open>What the engine sees of the disk: whether a path exists, the listing of a
  directory, and the text of a file as \<^verbatim>\<open>open(..., encoding='utf-8').read()\<close> returns it,
  or the exception it raises.\<close>

record file_system =
  fs_exists :: "string \<Rightarrow> bool"
  fs_listdir :: "string \<Rightarrow> py_exception + string list"
  fs_read :: "string \<Rightarrow> py_exception + string"

subsection \<open>The corpus index\<close>

text \<open>The metadata dictionary of one document: each key is present or not.\<close>

record metadata =
  title :: "string option"
  author :: "string option"
  category :: "string option"
  url :: "string option"
  content_preview :: "string option"

definition empty_metadata :: metadata where
  "empty_metadata =
     \<lparr>title = None, author = None, category = None, url = None, content_preview = None\<rparr>"

text \<open>\<^verbatim>\<open>d.get(key, '')\<close>.\<close>

definition get_or_empty :: "string option \<Rightarrow> string" where
  "get_or_empty v = (case v of None \<Rightarrow> [] | Some s \<Rightarrow> s)"

record engine =
  model :: word2vec
  blog_directory :: string
  word_to_blogs :: "(string \<times> string list) list"
  blog_metadata :: "(string \<times> metadata) list"
  doc_embeddings :: "(string \<times> vec) list"

text \<open>The loop over \<^verbatim>\<open>enumerate(lines)\<close> of \<^verbatim>\<open>_index_single_blog\<close>: \<open>i\<close> is the index of
  the current line; the result is the metadata read so far and \<^verbatim>\<open>content_start\<close>, which
  stays \<open>0\<close> when the loop ends without a \<^verbatim>\<open>break\<close>.\<close>

fun scan_header :: "string list \<Rightarrow> nat \<Rightarrow> metadata \<Rightarrow> metadata \<times> nat" where
  "scan_header [] i md = (md, 0)"
| "scan_header (line # rest) i md =
     (if prefix ''Title: '' line
      then scan_header rest (i + 1) (md\<lparr>title := Some (strip (remove_all ''Title: '' line))\<rparr>)
      else if prefix ''Author: '' line
      then scan_header rest (i + 1) (md\<lparr>author := Some (strip (remove_all ''Author: '' line))\<rparr>)
      else if prefix ''Category: '' line
      then scan_header rest (i + 1)
             (md\<lparr>category := Some (strip (remove_all ''Category: '' line))\<rparr>)
      else if prefix ''URL: '' line
      then scan_header rest (i + 1) (md\<lparr>url := Some (strip (remove_all ''URL: '' line))\<rparr>)
      else if prefix ''==='' line
      then (md, i + 1)
      else scan_header rest (i + 1) md)"

text \<open>The block \<^verbatim>\<open># extract metadata\<close> of \<^verbatim>\<open>_index_single_blog\<close>: the metadata with its
  preview, and the body text \<^verbatim>\<open>blog_conent\<close>.\<close>

definition extract_metadata :: "string \<Rightarrow> metadata \<times> string" where
  "extract_metadata content =
     (let lines = split_lines content;
          (md, content_start) = scan_header lines 0 empty_metadata;
          blog_conent = join_lines (drop content_start lines)
      in (md\<lparr>content_preview :=
                Some (if length blog_conent > 300 then take 300 blog_conent @ ''...''
                      else blog_conent)\<rparr>,
          blog_conent))"

text \<open>
  \<^verbatim>\<open>_index_single_blog\<close>. Everything in its \<^verbatim>\<open>try\<close> block may raise, and the handler logs
  and returns: reading the file is \<open>read\<close>, the call of \<^verbatim>\<open>_clean_text\<close> is \<open>tokenize\<close> and
  the call of \<^verbatim>\<open>_create_document_emedding\<close> is \<open>embed_words\<close>, each returning \<open>Inl\<close> for an
  exception. The metadata entry is stored before the text is tokenized.
\<close>

definition index_single_blog ::
  "(string \<Rightarrow> py_exception + string) \<Rightarrow> (string \<Rightarrow> py_exception + string list) \<Rightarrow>
   (string list \<Rightarrow> py_exception + vec) \<Rightarrow> engine \<Rightarrow> string \<Rightarrow> engine" where
  "index_single_blog read tokenize embed_words self filepath =
     (case read filepath of
        Inl e \<Rightarrow> self
      | Inr content \<Rightarrow>
          (let (md, blog_conent) = extract_metadata content;
               filename = os_path_basename filepath;
               self1 = self\<lparr>blog_metadata := AList.update filename md (blog_metadata self)\<rparr>;
               all_text = get_or_empty (title md) @ '' '' @ blog_conent
           in case tokenize all_text of
                Inl e \<Rightarrow> self1
              | Inr words \<Rightarrow>
                  (case embed_words words of
                     Inl e \<Rightarrow> self1
                   | Inr doc_embedding \<Rightarrow>
                       self1\<lparr>doc_embeddings :=
                               AList.update filename doc_embedding (doc_embeddings self1)\<rparr>)))"

text \<open>The loop of \<^verbatim>\<open>_index_blogs\<close> over the directory listing.\<close>

fun index_files ::
  "(string \<Rightarrow> py_exception + string) \<Rightarrow> (string \<Rightarrow> py_exception + string list) \<Rightarrow>
   (string list \<Rightarrow> py_exception + vec) \<Rightarrow> engine \<Rightarrow> string list \<Rightarrow> engine" where
  "index_files read tokenize embed_words self [] = self"
| "index_files read tokenize embed_words self (filename # rest) =
     index_files read tokenize embed_words
       (if suffix ''.txt'' filename
        then index_single_blog read tokenize embed_words self
               (os_path_join (blog_directory self) filename)
        else self)
       rest"

text \<open>\<^verbatim>\<open>_index_blogs\<close>: a missing directory is logged and leaves the index as it is; an
  exception of \<^verbatim>\<open>os.listdir\<close> is not caught here.\<close>

definition index_blogs ::
  "file_system \<Rightarrow> (string \<Rightarrow> py_exception + string list) \<Rightarrow>
   (string list \<Rightarrow> py_exception + vec) \<Rightarrow> engine \<Rightarrow> py_exception + engine" where
  "index_blogs fs tokenize embed_words self =
     (if \<not> fs_exists fs (blog_directory self) then Inr self
      else (case fs_listdir fs (blog_directory self) of
              Inl e \<Rightarrow> Inl e
            | Inr names \<Rightarrow> Inr (index_files (fs_read fs) tokenize embed_words self names)))"

text \<open>\<^verbatim>\<open>__init__\<close> for a model that loaded: both dictionaries start empty, and the engine
  tokenizes with \<open>clean_text\<close> and embeds with \<open>create_document_emedding\<close>.\<close>

definition new_engine :: "word2vec \<Rightarrow> string \<Rightarrow> engine" where
  "new_engine m dir =
     \<lparr>model = m, blog_directory = dir, word_to_blogs = [], blog_metadata = [],
      doc_embeddings = []\<rparr>"

definition init :: "file_system \<Rightarrow> word2vec \<Rightarrow> string \<Rightarrow> py_exception + engine" where
  "init fs m dir =
     index_blogs fs (\<lambda>text. Inr (clean_text text))
       (\<lambda>words. Inr (create_document_emedding m words)) (new_engine m dir)"

subsection \<open>Query-time operations\<close>

text \<open>Each method takes the engine \<open>self\<close> and returns its value together with the
  engine after the call.\<close>

type_synonym result = "string \<times> real \<times> metadata"

definition get_query_embeddings :: "string \<Rightarrow> engine \<Rightarrow> vec \<times> engine" where
  "get_query_embeddings query self =
     (let query_words = clean_text query
      in (create_document_emedding (model self) query_words, self))"

text \<open>The loop of \<^verbatim>\<open>_compute_similarities\<close> over \<^verbatim>\<open>doc_embeddings.items()\<close>, filling the
  dictionary \<^verbatim>\<open>similarities\<close>.\<close>

fun similarities_loop ::
  "vec \<Rightarrow> (string \<times> vec) list \<Rightarrow> (string \<times> real) list \<Rightarrow> (string \<times> real) list" where
  "similarities_loop normalized_query [] similarities = similarities"
| "similarities_loop normalized_query ((filename, doc_embedding) # rest) similarities =
     (let doc_norm = np_linalg_norm doc_embedding
      in if doc_norm > 0
         then similarities_loop normalized_query rest
                (AList.update filename
                   (np_dot normalized_query (vec_div doc_embedding doc_norm)) similarities)
         else similarities_loop normalized_query rest similarities)"

definition compute_similarities :: "vec \<Rightarrow> engine \<Rightarrow> (string \<times> real) list \<times> engine" where
  "compute_similarities query_embedding self =
     (let query_norm = np_linalg_norm query_embedding
      in if query_norm = 0 then ([], self)
         else (similarities_loop (vec_div query_embedding query_norm)
                 (doc_embeddings self) [], self))"

text \<open>The loop of \<^verbatim>\<open>_fallback_search\<close> over \<^verbatim>\<open>blog_metadata.items()\<close>.\<close>

fun matching_blogs :: "string set \<Rightarrow> (string \<times> metadata) list \<Rightarrow> result list" where
  "matching_blogs query_words [] = []"
| "matching_blogs query_words ((blog_file, md) # rest) =
     (let title_l = lower (get_or_empty (title md));
          content = lower (get_or_empty (content_preview md))
      in if \<exists>word \<in> query_words. sublist word (lower title_l) \<or> sublist word (lower content)
         then (blog_file, 0.5, md) # matching_blogs query_words rest
         else matching_blogs query_words rest)"

definition fallback_search :: "string \<Rightarrow> int \<Rightarrow> engine \<Rightarrow> result list \<times> engine" where
  "fallback_search query top_k self =
     (let query_words = set (clean_text query)
      in (py_slice_to (matching_blogs query_words (blog_metadata self)) top_k, self))"

text \<open>The part of \<^verbatim>\<open>search\<close> from \<^verbatim>\<open>_compute_similarities\<close> on: the ranking of a query
  embedding. \<^verbatim>\<open>sorted(..., reverse=True)\<close> is stable, as \<open>sort_key\<close> is.\<close>

definition rank_embedding :: "vec \<Rightarrow> int \<Rightarrow> engine \<Rightarrow> result list \<times> engine" where
  "rank_embedding query_embedding top_k self =
     (let (similarities, self1) = compute_similarities query_embedding self
      in if similarities = [] then ([], self1)
         else (let sorted_results = sort_key (\<lambda>x. - snd x) similarities
               in (map (\<lambda>(filename, score).
                          (filename, score,
                           (case map_of (blog_metadata self1) filename of
                              Some md \<Rightarrow> md
                            | None \<Rightarrow> empty_metadata)))
                     (py_slice_to sorted_results top_k), self1)))"

definition search :: "string \<Rightarrow> int \<Rightarrow> engine \<Rightarrow> result list \<times> engine" where
  "search query0 top_k self =
     (let query = strip (lower query0)
      in if query = [] then fallback_search query top_k self
         else (let (query_embedding, self1) = get_query_embeddings query self
               in rank_embedding query_embedding top_k self1))"

text \<open>\<^verbatim>\<open>get_stats\<close>: the values of \<^verbatim>\<open>total_blogs\<close>, \<^verbatim>\<open>vocabulary_size\<close> and
  \<^verbatim>\<open>embedding_dimension\<close>.\<close>

definition get_stats :: "engine \<Rightarrow> (nat \<times> nat \<times> nat) \<times> engine" where
  "get_stats self =
     ((length (doc_embeddings self), length (key_to_index (model self)),
       vector_size (model self)), self)"

definition get_vocabulary_sample :: "int \<Rightarrow> engine \<Rightarrow> string list \<times> engine" where
  "get_vocabulary_sample n self =
     (let vocab = key_to_index (model self) in (py_slice_to vocab n, self))"

subsection \<open>A small corpus\<close>

text \<open>A directory with three documents, a file that is not a document and a file that
  cannot be read, and a table of two words. The third document has an empty body and a
  title outside the table, hence a zero embedding.\<close>

definition example_model :: word2vec where
  "example_model =
     \<lparr>table = [(''technology'', [1, 0]), (''cooking'', [0, 1])], vector_size = 2\<rparr>"

definition example_fs :: file_system where
  "example_fs =
     \<lparr>fs_exists = (\<lambda>p. p = ''blogs''),
      fs_listdir = (\<lambda>p. Inr [''a.txt'', ''notes.md'', ''b.txt'', ''c.txt'', ''d.txt'']),
      fs_read = (\<lambda>p.
        if p = ''blogs/a.txt'' then Inr ''Title: Tech\<newline>===\<newline>technology and innovation''
        else if p = ''blogs/b.txt'' then Inr ''Title: Food\<newline>===\<newline>cooking recipes''
        else if p = ''blogs/c.txt'' then Inr ''Title: Empty\<newline>===\<newline>''
        else Inl OSError)\<rparr>"

definition md_a :: metadata where
  "md_a = \<lparr>title = Some ''Tech'', author = None, category = None, url = None,
           content_preview = Some ''technology and innovation''\<rparr>"

definition md_b :: metadata where
  "md_b = \<lparr>title = Some ''Food'', author = None, category = None, url = None,
           content_preview = Some ''cooking recipes''\<rparr>"

definition md_c :: metadata where
  "md_c = \<lparr>title = Some ''Empty'', author = None, category = None, url = None,
           content_preview = Some []\<rparr>"

definition example_engine :: engine where
  "example_engine =
     \<lparr>model = example_model, blog_directory = ''blogs'', word_to_blogs = [],
      blog_metadata = [(''a.txt'', md_a), (''b.txt'', md_b), (''c.txt'', md_c)],
      doc_embeddings = [(''a.txt'', [1, 0]), (''b.txt'', [0, 1]), (''c.txt'', [0, 0])]\<rparr>"

section \<open>Properties\<close>

subsection \<open>The small corpus\<close>

lemma example_engine_init: "init example_fs example_model ''blogs'' = Inr example_engine"
  by code_simp

lemma norm_examples:
  "np_linalg_norm [1, 0] = 1" "np_linalg_norm [0, 1] = 1" "np_linalg_norm [0, 0] = 0"
  by (simp_all add: np_linalg_norm_def)

subsection \<open>Tokenizer\<close>

lemma lower_char_idem: "lower_char (lower_char c) = lower_char c"
  by (simp add: lower_char_def is_upper_def Let_def)

lemma lower_idem: "lower (lower s) = lower s"
  by (simp add: lower_def lower_char_idem)

lemma simple_tokenize_chars:
  assumes "t \<in> set (simple_tokenize cur s)" and "c \<in> set t"
  shows "(c \<in> set cur \<or> c \<in> set s) \<and> (c \<in> set cur \<or> is_word_char c \<and> \<not> is_decimal c)"
  using assms
proof (induction s arbitrary: cur)
  case Nil
  then show ?case by (auto split: if_splits)
next
  case (Cons d s)
  show ?case
  proof (cases "is_word_char d \<and> \<not> is_decimal d")
    case True
    with Cons.prems have "t \<in> set (simple_tokenize (cur @ [d]) s)" by simp
    from Cons.IH[OF this Cons.prems(2)] True show ?thesis by auto
  next
    case False
    with Cons.prems have "t = cur \<or> t \<in> set (simple_tokenize [] s)"
      by (auto split: if_splits)
    then show ?thesis
    proof
      assume "t = cur" with Cons.prems(2) show ?thesis by simp
    next
      assume "t \<in> set (simple_tokenize [] s)"
      from Cons.IH[OF this Cons.prems(2)] show ?thesis by auto
    qed
  qed
qed

lemma simple_tokenize_no_word_chars:
  "\<forall>c \<in> set s. \<not> is_word_char c \<Longrightarrow> simple_tokenize [] s = []"
  by (induction s) auto

lemma is_space_not_word_char: "is_space c \<Longrightarrow> \<not> is_word_char (lower_char c)"
  unfolding is_space_def by (auto; code_simp)

lemma tokens_underscore:
  "clean_text ''foo_bar baz'' = [''foo_bar'', ''baz'']"
  "clean_text ''_foo Caf'' = [''caf'']"
  "clean_text [CHR ''C'', CHR ''A'', CHR ''F'', CHR 0xC9, CHR '' '', CHR ''x'', CHR ''1'', CHR ''y''] =
     [[CHR ''c'', CHR ''a'', CHR ''f'', CHR 0xE9]]"
  by code_simp+

text \<open>
  Claim C7, for the tokenizer the library provides: every token of \<open>clean_text\<close> has
  between 3 and 50 characters, is lower-cased, does not start with an underscore and
  consists of word characters that are not decimal digits; and a text of whitespace only
  has no token. The bounds 3 and 50 are those \<^verbatim>\<open>_clean_text\<close> passes.
\<close>

theorem clean_text_word_tokens:
  "(\<forall>t \<in> set (clean_text text).
      3 \<le> length t \<and> length t \<le> 50 \<and> lower t = t \<and> \<not> prefix ''_'' t \<and>
      (\<forall>c \<in> set t. is_word_char c \<and> \<not> is_decimal c)) \<and>
   ((\<forall>c \<in> set text. is_space c) \<longrightarrow> clean_text text = [])"
proof -
  have chars: "c \<in> set (lower text) \<and> is_word_char c \<and> \<not> is_decimal c"
    if "t \<in> set (simple_tokenize [] (lower text))" "c \<in> set t" for t c
    using simple_tokenize_chars[OF that] by simp
  have low: "lower t = t" if "t \<in> set (simple_tokenize [] (lower text))" for t
  proof -
    have "lower_char c = c" if "c \<in> set t" for c
    proof -
      from chars[OF \<open>t \<in> set (simple_tokenize [] (lower text))\<close> that]
      obtain d where "c = lower_char d" by (auto simp: lower_def)
      then show ?thesis by (simp add: lower_char_idem)
    qed
    then show ?thesis by (simp add: lower_def map_idI)
  qed
  have none: "simple_tokenize [] (lower text) = []" if "\<forall>c \<in> set text. is_space c"
    by (rule simple_tokenize_no_word_chars)
       (use that in \<open>auto simp: lower_def is_space_not_word_char\<close>)
  from chars low none show ?thesis
    by (auto simp: clean_text_def simple_preprocess_def)
qed

theorem clean_text_word_tokens_witness:
  "clean_text ''Hi There, x1y'' = [''there''] \<and> 3 \<le> length ''there'' \<and>
   length ''there'' \<le> 50 \<and> lower ''there'' = ''there'' \<and> \<not> prefix ''_'' ''there'' \<and>
   is_word_char (CHR ''t'') \<and> \<not> is_decimal (CHR ''t'') \<and>
   is_space (CHR '' '') \<and> is_space (CHR 0x0A) \<and> is_space (CHR 0x09) \<and>
   clean_text [CHR '' '', CHR 0x0A, CHR 0x09] = []"
proof -
  have a: "clean_text ''Hi There, x1y'' = [''there'']" by code_simp
  have b: "\<forall>c \<in> set [CHR '' '', CHR 0x0A, CHR 0x09]. is_space c"
    by (simp add: is_space_def)
  from clean_text_word_tokens[of "''Hi There, x1y''"]
    clean_text_word_tokens[of "[CHR '' '', CHR 0x0A, CHR 0x09]"] a b
  show ?thesis by simp
qed

text \<open>
  Claim C7 as stated has the tokens free of anything that is not alphabetic. The
  underscore is a word character and not a letter, and it stays inside a token.
\<close>

theorem clean_text_keeps_underscore:
  "clean_text ''foo_bar baz'' = [''foo_bar'', ''baz''] \<and>
   CHR ''_'' \<in> set ''foo_bar'' \<and> \<not> is_alpha (CHR ''_'')"
  by (simp add: tokens_underscore(1) is_alpha_def)

subsection \<open>Document embedder\<close>

lemma collect_vectors_map_filter: "collect_vectors m words = List.map_filter (wv m) words"
  by (induction words) (auto simp: List.map_filter_simps split: option.splits)

lemma wv_length: "wf_model m \<Longrightarrow> wv m w = Some v \<Longrightarrow> length v = vector_size m"
  by (auto simp: wf_model_def wv_def list_all_iff dest: map_of_SomeD)

lemma collect_vectors_length:
  "wf_model m \<Longrightarrow> v \<in> set (collect_vectors m words) \<Longrightarrow> length v = vector_size m"
  by (induction words) (auto split: option.splits dest: wv_length)

lemma foldl_vec_add:
  "length v = d \<Longrightarrow> \<forall>u \<in> set vs. length u = d \<Longrightarrow>
   foldl vec_add v vs = map (\<lambda>i. v ! i + (\<Sum>u\<leftarrow>vs. u ! i)) [0..<d]"
proof (induction vs arbitrary: v)
  case Nil
  then show ?case by (auto intro!: nth_equalityI)
next
  case (Cons u vs)
  from Cons.prems have lu: "length u = d" by simp
  have va: "vec_add v u = map (\<lambda>i. v ! i + u ! i) [0..<d]"
    using Cons.prems(1) lu by (auto simp: vec_add_def intro!: nth_equalityI)
  have "foldl vec_add (vec_add v u) vs =
        map (\<lambda>i. vec_add v u ! i + (\<Sum>w\<leftarrow>vs. w ! i)) [0..<d]"
    by (rule Cons.IH) (use Cons.prems va in auto)
  also have "\<dots> = map (\<lambda>i. v ! i + (\<Sum>w\<leftarrow>u # vs. w ! i)) [0..<d]"
    by (simp add: va add.assoc)
  finally show ?case by simp
qed

lemma np_mean_components:
  assumes "vs \<noteq> []" "\<forall>u \<in> set vs. length u = d"
  shows "np_mean vs = map (\<lambda>i. (\<Sum>u\<leftarrow>vs. u ! i) / real (length vs)) [0..<d]"
proof -
  from assms(1) obtain v ws where vs: "vs = v # ws" by (cases vs) auto
  with assms(2) have "foldl vec_add v ws = map (\<lambda>i. v ! i + (\<Sum>u\<leftarrow>ws. u ! i)) [0..<d]"
    by (intro foldl_vec_add) auto
  then show ?thesis by (simp add: vs)
qed

lemma create_document_emedding_eq:
  assumes "wf_model m"
  shows "create_document_emedding m words =
           (let vs = List.map_filter (wv m) words
            in if vs = [] then replicate (vector_size m) 0
               else map (\<lambda>i. (\<Sum>v\<leftarrow>vs. v ! i) / real (length vs)) [0..<vector_size m])"
proof -
  let ?vs = "collect_vectors m words"
  have "np_mean ?vs = map (\<lambda>i. (\<Sum>u\<leftarrow>?vs. u ! i) / real (length ?vs)) [0..<vector_size m]"
    if "?vs \<noteq> []"
    by (rule np_mean_components[OF that]) (use assms collect_vectors_length in blast)
  then show ?thesis
    by (simp add: create_document_emedding_def Let_def np_zeros_def
        collect_vectors_map_filter[symmetric])
qed



text \<open>
  Claim C5. The vectors that enter the embedding are those of the tokens found in the
  table, in order, the other tokens being skipped. If there is at least one, the result
  is their component-wise arithmetic mean; if there is none (also for no token at all),
  it is the zero vector of the table's dimension. The table is one whose vectors all have
  that dimension.
\<close>

theorem create_document_emedding_mean:
  assumes "wf_model m"
  shows "collect_vectors m words = List.map_filter (wv m) words \<and>
         create_document_emedding m words =
           (let vs = List.map_filter (wv m) words
            in if vs = [] then replicate (vector_size m) 0
               else map (\<lambda>i. (\<Sum>v\<leftarrow>vs. v ! i) / real (length vs)) [0..<vector_size m])"
  using create_document_emedding_eq[OF assms] collect_vectors_map_filter by blast

theorem create_document_emedding_mean_witness:
  "wf_model example_model \<and>
   create_document_emedding example_model [''technology'', ''zzz'', ''cooking''] = [1 / 2, 1 / 2] \<and>
   create_document_emedding example_model [''zzz''] = [0, 0] \<and>
   create_document_emedding example_model [] = [0, 0]"
proof -
  have wf: "wf_model example_model" by (simp add: wf_model_def example_model_def)
  have upt: "[0..<2] = [0, Suc 0]" by (simp add: upt_rec)
  from create_document_emedding_mean[OF wf, of "[''technology'', ''zzz'', ''cooking'']"]
    create_document_emedding_mean[OF wf, of "[''zzz'']"]
    create_document_emedding_mean[OF wf, of "[]"] wf
  show ?thesis
    by (simp add: List.map_filter_simps wv_def upt numeral_2_eq_2 example_model_def)
qed

subsection \<open>Slices and dictionaries\<close>

lemma py_slice_to_nonneg: "0 \<le> k \<Longrightarrow> py_slice_to xs k = take (nat k) xs"
  by (simp add: py_slice_to_def)

lemma set_py_slice_to: "x \<in> set (py_slice_to xs k) \<Longrightarrow> x \<in> set xs"
  by (auto simp: py_slice_to_def dest: in_set_takeD split: if_splits)

subsection \<open>Fallback matcher\<close>

lemma matching_blogs_filter:
  "matching_blogs ws items =
     map (\<lambda>(f, md). (f, 1 / 2, md))
       (filter (\<lambda>(f, md). \<exists>w \<in> ws. sublist w (lower (get_or_empty (title md))) \<or>
                                  sublist w (lower (get_or_empty (content_preview md)))) items)"
  by (induction ws items rule: matching_blogs.induct) (auto simp: lower_idem Let_def)

lemma fallback_tech_food:
  "fst (fallback_search ''tech food'' 1 example_engine) = [(''a.txt'', 1 / 2, md_a)]"
  "fst (fallback_search ''tech food'' (- 1) example_engine) = [(''a.txt'', 1 / 2, md_a)]"
  by code_simp+

text \<open>
  Claim C6, as the code has it: for \<open>top_k \<ge> 0\<close> the fallback matcher returns the first
  \<open>top_k\<close> of the documents, in the order of the metadata dictionary, for which some
  token of the query is a substring of the lower-cased title or of the lower-cased
  preview, each with the score 0.5.
\<close>

theorem fallback_search_filter:
  assumes "0 \<le> top_k"
  shows "fst (fallback_search query top_k self) =
     take (nat top_k)
       (map (\<lambda>(f, md). (f, 1 / 2, md))
         (filter (\<lambda>(f, md). \<exists>w \<in> set (clean_text query).
                     sublist w (lower (get_or_empty (title md))) \<or>
                     sublist w (lower (get_or_empty (content_preview md))))
            (blog_metadata self)))"
  using assms by (simp add: fallback_search_def Let_def py_slice_to_nonneg matching_blogs_filter)

theorem fallback_search_filter_witness:
  "(0::int) \<le> 1 \<and>
   fst (fallback_search ''tech food'' 1 example_engine) = [(''a.txt'', 1 / 2, md_a)] \<and>
   take (nat 1)
     (map (\<lambda>(f, md). (f, 1 / 2 :: real, md))
       (filter (\<lambda>(f, md). \<exists>w \<in> set (clean_text ''tech food'').
                   sublist w (lower (get_or_empty (title md))) \<or>
                   sublist w (lower (get_or_empty (content_preview md))))
          (blog_metadata example_engine))) = [(''a.txt'', 1 / 2, md_a)]"
proof -
  have h: "(0::int) \<le> 1" by simp
  from fallback_search_filter[OF h, of "''tech food''" example_engine] fallback_tech_food(1)
  show ?thesis by simp
qed

text \<open>
  Claim C6 as stated covers every \<open>top_k\<close>. For \<open>top_k = -1\<close> the slice
  \<^verbatim>\<open>matching_blogs[:top_k]\<close> drops the last match only: of the two documents matching
  \<^verbatim>\<open>tech food\<close> one is returned, which is more than \<open>top_k\<close> entries.
\<close>

theorem fallback_search_negative_top_k:
  "fst (fallback_search ''tech food'' (- 1) example_engine) = [(''a.txt'', 1 / 2, md_a)] \<and>
   \<not> int (length (fst (fallback_search ''tech food'' (- 1) example_engine))) \<le> - 1"
  by (simp add: fallback_tech_food(2))

subsection \<open>Ranker\<close>

lemma similarities_loop_keys:
  "fst ` set (similarities_loop nq des acc) =
     fst ` set acc \<union> {f. \<exists>v. (f, v) \<in> set des \<and> np_linalg_norm v > 0}"
proof (induction nq des acc rule: similarities_loop.induct)
  case (1 nq acc)
  then show ?case by simp
next
  case (2 nq filename doc_embedding rest acc)
  then show ?case by (auto simp: Let_def AList.dom_update)
qed

lemma compute_similarities_keys:
  "f \<in> fst ` set (fst (compute_similarities qe self)) \<Longrightarrow>
   \<exists>v. (f, v) \<in> set (doc_embeddings self) \<and> np_linalg_norm v > 0"
  by (auto simp: compute_similarities_def Let_def similarities_loop_keys split: if_splits)

lemma compute_similarities_self: "snd (compute_similarities qe self) = self"
  by (simp add: compute_similarities_def Let_def)

lemma rank_embedding_fst:
  "fst (rank_embedding qe top_k self) =
     map (\<lambda>(filename, score).
            (filename, score,
             (case map_of (blog_metadata self) filename of
                Some md \<Rightarrow> md
              | None \<Rightarrow> empty_metadata)))
       (py_slice_to (sort_key (\<lambda>x. - snd x) (fst (compute_similarities qe self))) top_k)"
proof (cases "compute_similarities qe self")
  case (Pair sims self1)
  then have "self1 = self" using compute_similarities_self[of qe self] by simp
  with Pair show ?thesis
    by (simp add: rank_embedding_def Let_def py_slice_to_def)
qed

lemma rank_embedding_self: "snd (rank_embedding qe top_k self) = self"
proof (cases "compute_similarities qe self")
  case (Pair sims self1)
  then have "self1 = self" using compute_similarities_self[of qe self] by simp
  with Pair show ?thesis
    by (simp add: rank_embedding_def Let_def)
qed

lemma rank_embedding_names:
  assumes "(f, s, md) \<in> set (fst (rank_embedding qe top_k self))"
  shows "f \<in> fst ` set (fst (compute_similarities qe self))"
proof -
  from assms obtain p where
    p: "p \<in> set (py_slice_to (sort_key (\<lambda>x. - snd x) (fst (compute_similarities qe self))) top_k)"
    and f: "f = fst p"
    unfolding rank_embedding_fst by (auto simp: case_prod_unfold)
  from set_py_slice_to[OF p] have "p \<in> set (fst (compute_similarities qe self))" by simp
  with f show ?thesis by blast
qed

lemma rank_embedding_length:
  "0 \<le> top_k \<Longrightarrow> length (fst (rank_embedding qe top_k self)) \<le> nat top_k"
  unfolding rank_embedding_fst by (simp add: py_slice_to_nonneg)

lemma search_nonempty:
  "strip (lower query) \<noteq> [] \<Longrightarrow>
   search query top_k self =
     rank_embedding (create_document_emedding (model self) (clean_text (strip (lower query))))
       top_k self"
  unfolding search_def get_query_embeddings_def Let_def by simp

lemma rank_tech:
  "fst (rank_embedding [1, 0] 1 example_engine) = [(''a.txt'', 1, md_a)]"
  "fst (rank_embedding [1, 0] 5 example_engine) = [(''a.txt'', 1, md_a), (''b.txt'', 0, md_b)]"
  by (simp_all add: rank_embedding_def compute_similarities_def example_engine_def
      norm_examples Let_def np_dot_def vec_div_def py_slice_to_def)

text \<open>
  Claim C4. For \<open>top_k \<ge> 0\<close> and an index whose embedding dictionary has each key once,
  the ranking of any query embedding has at most \<open>top_k\<close> results, and every returned
  document has a stored embedding of nonzero norm. A query whose normalized form is not
  empty is answered by this ranking of its embedding.
\<close>

theorem rank_embedding_bounded:
  assumes "0 \<le> top_k" and "distinct (map fst (doc_embeddings self))"
  shows "length (fst (rank_embedding qe top_k self)) \<le> nat top_k \<and>
         (\<forall>(f, s, md) \<in> set (fst (rank_embedding qe top_k self)).
            \<exists>v. map_of (doc_embeddings self) f = Some v \<and> np_linalg_norm v \<noteq> 0) \<and>
         (strip (lower query) \<noteq> [] \<longrightarrow>
            search query top_k self =
              rank_embedding
                (create_document_emedding (model self) (clean_text (strip (lower query))))
                top_k self)"
proof (intro conjI)
  show "length (fst (rank_embedding qe top_k self)) \<le> nat top_k"
    by (rule rank_embedding_length[OF assms(1)])
  show "\<forall>(f, s, md) \<in> set (fst (rank_embedding qe top_k self)).
            \<exists>v. map_of (doc_embeddings self) f = Some v \<and> np_linalg_norm v \<noteq> 0"
  proof (clarify)
    fix f s md
    assume "(f, s, md) \<in> set (fst (rank_embedding qe top_k self))"
    then have "f \<in> fst ` set (fst (compute_similarities qe self))"
      by (rule rank_embedding_names)
    then obtain v where v: "(f, v) \<in> set (doc_embeddings self)" "np_linalg_norm v > 0"
      using compute_similarities_keys by blast
    from v(1) assms(2) have "map_of (doc_embeddings self) f = Some v"
      by (simp add: map_of_eq_Some_iff)
    with v(2) show "\<exists>v. map_of (doc_embeddings self) f = Some v \<and> np_linalg_norm v \<noteq> 0"
      by auto
  qed
  show "strip (lower query) \<noteq> [] \<longrightarrow>
            search query top_k self =
              rank_embedding
                (create_document_emedding (model self) (clean_text (strip (lower query))))
                top_k self"
    using search_nonempty by blast
qed

theorem rank_embedding_bounded_witness:
  "(0::int) \<le> 1 \<and> distinct (map fst (doc_embeddings example_engine)) \<and>
   fst (rank_embedding [1, 0] 1 example_engine) = [(''a.txt'', 1, md_a)] \<and>
   length (fst (rank_embedding [1, 0] 1 example_engine)) \<le> nat 1 \<and>
   map_of (doc_embeddings example_engine) ''a.txt'' = Some [1, 0] \<and>
   np_linalg_norm [1, 0] \<noteq> 0 \<and>
   map_of (doc_embeddings example_engine) ''c.txt'' = Some [0, 0] \<and>
   np_linalg_norm [0, 0] = 0 \<and>
   strip (lower ''Technology'') \<noteq> [] \<and>
   search ''Technology'' 1 example_engine = rank_embedding [1, 0] 1 example_engine"
proof -
  have h: "(0::int) \<le> 1" by simp
  have d: "distinct (map fst (doc_embeddings example_engine))"
    by (simp add: example_engine_def)
  have q: "strip (lower ''Technology'') = ''technology''" by code_simp
  have e: "create_document_emedding (model example_engine) (clean_text ''technology'') = [1, 0]"
    by code_simp
  from rank_embedding_bounded[OF h d, of "[1, 0]" "''Technology''"] d q e
  show ?thesis
    by (simp add: rank_tech(1) norm_examples) (simp add: example_engine_def)
qed

subsection \<open>Search on a query outside the vocabulary\<close>

text \<open>
  Claim C1 says that a non-empty query whose embedding has zero norm is answered by the
  fallback matcher. In \<^verbatim>\<open>search\<close> the fallback is called for the empty query only; when
  \<^verbatim>\<open>_compute_similarities\<close> returns nothing, \<^verbatim>\<open>search\<close> returns the empty list. On the
  small corpus, built by \<open>init\<close>, the query \<^verbatim>\<open>Empty \<close> has no token in the table: \<open>search\<close>
  returns nothing, while the fallback matcher on the normalized query finds the third
  document by its title.
\<close>

theorem search_out_of_vocabulary:
  "init example_fs example_model ''blogs'' = Inr example_engine \<and>
   strip (lower ''Empty '') = ''empty'' \<and>
   np_linalg_norm (fst (get_query_embeddings ''empty'' example_engine)) = 0 \<and>
   fst (search ''Empty '' 5 example_engine) = [] \<and>
   fst (fallback_search ''empty'' 5 example_engine) = [(''c.txt'', 1 / 2, md_c)]"
proof -
  have q: "strip (lower ''Empty '') = ''empty''" by code_simp
  have e: "create_document_emedding (model example_engine) (clean_text ''empty'') = [0, 0]"
    by code_simp
  have "compute_similarities [0, 0] example_engine = ([], example_engine)"
    by (simp add: compute_similarities_def norm_examples)
  then have "rank_embedding [0, 0] 5 example_engine = ([], example_engine)"
    by (simp add: rank_embedding_def)
  then have s: "fst (search ''Empty '' 5 example_engine) = []"
    by (simp add: search_def get_query_embeddings_def q e)
  have f: "fst (fallback_search ''empty'' 5 example_engine) = [(''c.txt'', 1 / 2, md_c)]"
    by code_simp
  from q e s f show ?thesis
    by (simp add: example_engine_init get_query_embeddings_def norm_examples)
qed

subsection \<open>Ingestion\<close>




lemma index_single_blog_read_error:
  "read filepath = Inl e \<Longrightarrow> index_single_blog read tokenize embed_words self filepath = self"
  by (simp add: index_single_blog_def)

lemma index_single_blog_dir:
  "blog_directory (index_single_blog read tokenize embed_words self filepath) =
   blog_directory self"
  by (simp add: index_single_blog_def Let_def split: sum.splits prod.splits)

lemma index_single_blog_metadata:
  "read filepath = Inr content \<Longrightarrow>
   blog_metadata (index_single_blog read tokenize embed_words self filepath) =
     AList.update (os_path_basename filepath) (fst (extract_metadata content))
       (blog_metadata self)"
  by (simp add: index_single_blog_def Let_def split: sum.splits prod.splits)

lemma index_single_blog_embeddings:
  "read filepath = Inr content \<Longrightarrow>
   tokenize (get_or_empty (title (fst (extract_metadata content))) @ '' '' @
             snd (extract_metadata content)) = Inr words \<Longrightarrow>
   embed_words words = Inr v \<Longrightarrow>
   doc_embeddings (index_single_blog read tokenize embed_words self filepath) =
     AList.update (os_path_basename filepath) v (doc_embeddings self)"
  by (cases "extract_metadata content") (simp add: index_single_blog_def Let_def)



lemma index_files_dir:
  "blog_directory (index_files read tokenize embed_words self names) = blog_directory self"
  by (induction names arbitrary: self) (simp_all add: index_single_blog_dir)


lemma index_files_step:
  "index_files read tokenize embed_words self (n # names) =
     index_files read tokenize embed_words
       (if suffix ''.txt'' n
        then index_single_blog read tokenize embed_words self
               (os_path_join (blog_directory self) n)
        else self) names"
  by simp





subsection \<open>Key sets of the two dictionaries\<close>

lemma index_single_blog_keys:
  assumes "\<forall>t. \<exists>ws. tokenize t = Inr ws" and "\<forall>ws. \<exists>v. embed_words ws = Inr v"
    and "read filepath = Inr content"
  shows "fst ` set (blog_metadata (index_single_blog read tokenize embed_words self filepath)) =
           insert (os_path_basename filepath) (fst ` set (blog_metadata self)) \<and>
         fst ` set (doc_embeddings (index_single_blog read tokenize embed_words self filepath)) =
           insert (os_path_basename filepath) (fst ` set (doc_embeddings self))"
proof -
  from assms(1) obtain words where
    w: "tokenize (get_or_empty (title (fst (extract_metadata content))) @ '' '' @
                  snd (extract_metadata content)) = Inr words" by blast
  from assms(2) obtain v where v: "embed_words words = Inr v" by blast
  show ?thesis
    using index_single_blog_metadata[where read=read and content=content
        and filepath=filepath and self=self and tokenize=tokenize and embed_words=embed_words]
      index_single_blog_embeddings[where read=read and content=content
        and filepath=filepath and self=self and tokenize=tokenize and embed_words=embed_words
        and words=words and v=v] assms(3) w v
    by (simp add: AList.dom_update)
qed

lemma index_single_blog_agree:
  assumes "\<forall>t. \<exists>ws. tokenize t = Inr ws" and "\<forall>ws. \<exists>v. embed_words ws = Inr v"
    and "fst ` set (blog_metadata self) = fst ` set (doc_embeddings self)"
  shows "fst ` set (blog_metadata (index_single_blog read tokenize embed_words self filepath)) =
         fst ` set (doc_embeddings (index_single_blog read tokenize embed_words self filepath))"
proof (cases "read filepath")
  case (Inl e)
  then show ?thesis by (simp add: index_single_blog_read_error assms(3))
next
  case (Inr content)
  from index_single_blog_keys[OF assms(1,2), where read=read, OF Inr] assms(3)
  show ?thesis by simp
qed

lemma index_files_agree:
  assumes "\<forall>t. \<exists>ws. tokenize t = Inr ws" and "\<forall>ws. \<exists>v. embed_words ws = Inr v"
  shows "fst ` set (blog_metadata self) = fst ` set (doc_embeddings self) \<Longrightarrow>
         fst ` set (blog_metadata (index_files read tokenize embed_words self names)) =
         fst ` set (doc_embeddings (index_files read tokenize embed_words self names))"
proof (induction names arbitrary: self)
  case Nil
  then show ?case by simp
next
  case (Cons n names)
  show ?case
    unfolding index_files_step
    by (rule Cons.IH) (simp add: Cons.prems index_single_blog_agree[OF assms])
qed

text \<open>
  Claim C2, as the code has it: when tokenization and embedding do not raise (as for the
  engine's own tokenizer and embedder) and the two dictionaries start with the same keys,
  they have the same keys after every number of files of the listing; a file that cannot
  be read leaves the engine as it was, and a file that is read adds its name to both.
\<close>

theorem index_files_keys_agree:
  assumes "\<forall>t. \<exists>ws. tokenize t = Inr ws" and "\<forall>ws. \<exists>v. embed_words ws = Inr v"
    and "fst ` set (blog_metadata self) = fst ` set (doc_embeddings self)"
  shows "(\<forall>k. fst ` set (blog_metadata
                   (index_files read tokenize embed_words self (take k names))) =
              fst ` set (doc_embeddings
                   (index_files read tokenize embed_words self (take k names)))) \<and>
         (\<forall>filepath e. read filepath = Inl e \<longrightarrow>
            index_single_blog read tokenize embed_words self filepath = self) \<and>
         (\<forall>filepath content. read filepath = Inr content \<longrightarrow>
            fst ` set (blog_metadata
                 (index_single_blog read tokenize embed_words self filepath)) =
              insert (os_path_basename filepath) (fst ` set (blog_metadata self)) \<and>
            fst ` set (doc_embeddings
                 (index_single_blog read tokenize embed_words self filepath)) =
              insert (os_path_basename filepath) (fst ` set (doc_embeddings self)))"
  using index_files_agree[OF assms(1,2), where read=read and self=self, OF assms(3)]
    index_single_blog_keys[OF assms(1,2), where read=read and self=self]
  by (simp add: index_single_blog_read_error)

theorem index_files_keys_agree_witness:
  "(\<forall>t. \<exists>ws. (Inr (clean_text t) :: py_exception + string list) = Inr ws) \<and>
   (\<forall>ws. \<exists>v. (Inr (create_document_emedding example_model ws) :: py_exception + vec) = Inr v) \<and>
   fst ` set (blog_metadata (new_engine example_model ''blogs'')) =
     fst ` set (doc_embeddings (new_engine example_model ''blogs'')) \<and>
   index_files (fs_read example_fs) (\<lambda>text. Inr (clean_text text))
     (\<lambda>words. Inr (create_document_emedding example_model words))
     (new_engine example_model ''blogs'')
     (take 5 [''a.txt'', ''notes.md'', ''b.txt'', ''c.txt'', ''d.txt'']) = example_engine \<and>
   fst ` set (blog_metadata example_engine) = fst ` set (doc_embeddings example_engine) \<and>
   fst ` set (doc_embeddings example_engine) = {''a.txt'', ''b.txt'', ''c.txt''}"
proof -
  let ?tok = "\<lambda>text. Inr (clean_text text) :: py_exception + string list"
  let ?emb = "\<lambda>words. Inr (create_document_emedding example_model words) :: py_exception + vec"
  let ?self = "new_engine example_model ''blogs''"
  have t: "\<forall>t. \<exists>ws. ?tok t = Inr ws" and e: "\<forall>ws. \<exists>v. ?emb ws = Inr v" by simp_all
  have i: "fst ` set (blog_metadata ?self) = fst ` set (doc_embeddings ?self)"
    by (simp add: new_engine_def)
  have r: "index_files (fs_read example_fs) ?tok ?emb ?self
     (take 5 [''a.txt'', ''notes.md'', ''b.txt'', ''c.txt'', ''d.txt'']) = example_engine"
  proof -
    have "init example_fs example_model ''blogs'' =
      Inr (index_files (fs_read example_fs) ?tok ?emb ?self
             [''a.txt'', ''notes.md'', ''b.txt'', ''c.txt'', ''d.txt''])"
      by (simp add: init_def index_blogs_def new_engine_def example_fs_def
          del: index_files.simps)
    with example_engine_init show ?thesis by (simp del: index_files.simps)
  qed
  from index_files_keys_agree[OF t e i, of "fs_read example_fs"
      "[''a.txt'', ''notes.md'', ''b.txt'', ''c.txt'', ''d.txt'']", THEN conjunct1,
      rule_format, of 5] r
  have "fst ` set (blog_metadata example_engine) = fst ` set (doc_embeddings example_engine)"
    by (simp only:)
  moreover have "fst ` set (doc_embeddings example_engine) = {''a.txt'', ''b.txt'', ''c.txt''}"
    by (simp add: example_engine_def)
  ultimately show ?thesis using i r t e by (intro conjI)
qed

text \<open>
  Claim C2 as stated also covers a document whose tokenization or embedding fails. The
  metadata entry is written before the text is tokenized, and the handler does not take
  it back: with an embedder that raises, the first document of the small corpus is in the
  metadata dictionary and not in the embedding dictionary.
\<close>

theorem index_single_blog_embedding_failure:
  "fst ` set (blog_metadata
     (index_single_blog (fs_read example_fs) (\<lambda>text. Inr (clean_text text))
        (\<lambda>words. Inl RuntimeError) (new_engine example_model ''blogs'') ''blogs/a.txt'')) =
     {''a.txt''} \<and>
   fst ` set (doc_embeddings
     (index_single_blog (fs_read example_fs) (\<lambda>text. Inr (clean_text text))
        (\<lambda>words. Inl RuntimeError) (new_engine example_model ''blogs'') ''blogs/a.txt'')) =
     {}"
proof -
  have "index_single_blog (fs_read example_fs) (\<lambda>text. Inr (clean_text text))
        (\<lambda>words. Inl RuntimeError) (new_engine example_model ''blogs'') ''blogs/a.txt'' =
     \<lparr>model = example_model, blog_directory = ''blogs'', word_to_blogs = [],
      blog_metadata = [(''a.txt'', md_a)], doc_embeddings = []\<rparr>"
    by code_simp
  then show ?thesis by simp
qed

subsection \<open>Query-time operations and the engine\<close>

lemma fallback_search_self: "snd (fallback_search query top_k self) = self"
  by (simp add: fallback_search_def Let_def)

lemma get_query_embeddings_self: "snd (get_query_embeddings query self) = self"
  by (simp add: get_query_embeddings_def Let_def)

lemma search_self: "snd (search query top_k self) = self"
proof (cases "strip (lower query) = []")
  case True
  then show ?thesis by (simp add: search_def fallback_search_self)
next
  case False
  then show ?thesis by (simp add: search_nonempty rank_embedding_self)
qed

text \<open>
  Claim C10. Each query-time operation returns the engine it was given: the search in
  both of its branches and the ranking it runs, the fallback matcher, the statistics and
  the vocabulary sample, and the two helpers of the search. The engine holds the metadata
  dictionary, the embedding dictionary and the embedding table, so all three are the same
  after the call as before.
\<close>

theorem query_operations_keep_engine:
  "snd (search query top_k self) = self \<and>
   snd (rank_embedding query_embedding top_k self) = self \<and>
   snd (fallback_search query top_k self) = self \<and>
   snd (get_stats self) = self \<and>
   snd (get_vocabulary_sample n self) = self \<and>
   snd (get_query_embeddings query self) = self \<and>
   snd (compute_similarities query_embedding self) = self \<and>
   blog_metadata (snd (search query top_k self)) = blog_metadata self \<and>
   doc_embeddings (snd (search query top_k self)) = doc_embeddings self \<and>
   model (snd (search query top_k self)) = model self"
  by (simp add: search_self rank_embedding_self fallback_search_self get_stats_def
      get_vocabulary_sample_def Let_def get_query_embeddings_self compute_similarities_self)

subsection \<open>Header and body of a document\<close>

lemma delimiter_no_label:
  assumes "prefix ''==='' d"
  shows "\<not> prefix ''Title: '' d" "\<not> prefix ''Author: '' d" "\<not> prefix ''Category: '' d"
    "\<not> prefix ''URL: '' d"
  using assms by (cases d; simp)+

lemma scan_header_delimiter:
  assumes "prefix ''==='' d" and "\<forall>l \<in> set pre. \<not> prefix ''==='' l"
  shows "scan_header (pre @ d # post) i md = (fst (scan_header pre i md), i + length pre + 1)"
  using assms(2)
proof (induction pre arbitrary: i md)
  case Nil
  then show ?case using delimiter_no_label[OF assms(1)] assms(1) by simp
next
  case (Cons l pre)
  then show ?case by simp
qed

text \<open>
  Claim C3, as the code has it: the delimiter is a line that starts with three \<open>=\<close>
  characters. When the lines of a file are \<open>pre\<close>, then the first such line \<open>d\<close>, then
  \<open>post\<close>, the header fields are those read from \<open>pre\<close> alone and the body, from which the
  preview is cut, is \<open>post\<close> joined by newlines; and when the file is read, tokenized
  and embedded without an exception, the text that is tokenized for the embedding is
  that title, a space and that body.
\<close>

theorem extract_metadata_delimiter:
  assumes "split_lines content = pre @ d # post"
    and "prefix ''==='' d"
    and "\<forall>l \<in> set pre. \<not> prefix ''==='' l"
  shows "extract_metadata content =
     ((fst (scan_header pre 0 empty_metadata))
        \<lparr>content_preview :=
           Some (if length (join_lines post) > 300 then take 300 (join_lines post) @ ''...''
                 else join_lines post)\<rparr>,
      join_lines post) \<and>
    (read filepath = Inr content \<and>
     tokenize (get_or_empty (title (fst (scan_header pre 0 empty_metadata))) @ '' '' @
               join_lines post) = Inr words \<and>
     embed_words words = Inr v \<longrightarrow>
     doc_embeddings (index_single_blog read tokenize embed_words self filepath) =
       AList.update (os_path_basename filepath) v (doc_embeddings self) \<and>
     blog_metadata (index_single_blog read tokenize embed_words self filepath) =
       AList.update (os_path_basename filepath)
         ((fst (scan_header pre 0 empty_metadata))
            \<lparr>content_preview :=
               Some (if length (join_lines post) > 300
                     then take 300 (join_lines post) @ ''...''
                     else join_lines post)\<rparr>)
         (blog_metadata self))"
proof -
  have e: "extract_metadata content =
     ((fst (scan_header pre 0 empty_metadata))
        \<lparr>content_preview :=
           Some (if length (join_lines post) > 300 then take 300 (join_lines post) @ ''...''
                 else join_lines post)\<rparr>,
      join_lines post)"
    using scan_header_delimiter[OF assms(2,3), of post 0 empty_metadata]
    by (simp add: extract_metadata_def assms(1) Let_def)
  show ?thesis
    using index_single_blog_metadata[where read=read and content=content
        and filepath=filepath and self=self and tokenize=tokenize and embed_words=embed_words]
      index_single_blog_embeddings[where read=read and content=content
        and filepath=filepath and self=self and tokenize=tokenize and embed_words=embed_words
        and words=words and v=v]
    by (simp add: e)
qed

theorem extract_metadata_delimiter_witness:
  "split_lines ''Title: A\<newline>URL: u\<newline>=====\<newline>Title: B\<newline>body'' =
     [''Title: A'', ''URL: u''] @ ''====='' # [''Title: B'', ''body''] \<and>
   prefix ''==='' ''====='' \<and>
   \<not> prefix ''==='' ''Title: A'' \<and> \<not> prefix ''==='' ''URL: u'' \<and>
   extract_metadata ''Title: A\<newline>URL: u\<newline>=====\<newline>Title: B\<newline>body'' =
     (\<lparr>title = Some ''A'', author = None, category = None, url = Some ''u'',
       content_preview = Some ''Title: B\<newline>body''\<rparr>,
      ''Title: B\<newline>body'') \<and>
   clean_text ''A Title: B\<newline>body'' = [''title'', ''body''] \<and>
   index_single_blog
     (\<lambda>p. Inr ''Title: A\<newline>URL: u\<newline>=====\<newline>Title: B\<newline>body'')
     (\<lambda>text. Inr (clean_text text)) (\<lambda>words. Inr [real (length words)])
     (new_engine example_model ''blogs'') ''blogs/x.txt'' =
     \<lparr>model = example_model, blog_directory = ''blogs'', word_to_blogs = [],
      blog_metadata =
        [(''x.txt'', \<lparr>title = Some ''A'', author = None, category = None, url = Some ''u'',
                      content_preview = Some ''Title: B\<newline>body''\<rparr>)],
      doc_embeddings = [(''x.txt'', [2])]\<rparr>"
proof -
  let ?c = "''Title: A\<newline>URL: u\<newline>=====\<newline>Title: B\<newline>body''"
  let ?read = "\<lambda>p :: string. Inr ?c :: py_exception + string"
  let ?tok = "\<lambda>text. Inr (clean_text text) :: py_exception + string list"
  let ?emb = "\<lambda>words :: string list. Inr [real (length words)] :: py_exception + vec"
  let ?self = "new_engine example_model ''blogs''"
  have s: "split_lines ?c = [''Title: A'', ''URL: u''] @ ''====='' # [''Title: B'', ''body'']"
    by code_simp
  have p: "prefix ''==='' ''====='' " by simp
  have n: "\<forall>l \<in> set [''Title: A'', ''URL: u'']. \<not> prefix ''==='' l" by simp
  have h: "fst (scan_header [''Title: A'', ''URL: u''] 0 empty_metadata) =
     \<lparr>title = Some ''A'', author = None, category = None, url = Some ''u'',
      content_preview = None\<rparr>"
    by code_simp
  have j: "join_lines [''Title: B'', ''body''] = ''Title: B\<newline>body''" by simp
  have t: "clean_text ''A Title: B\<newline>body'' = [''title'', ''body'']" by code_simp
  have b: "os_path_basename ''blogs/x.txt'' = ''x.txt''" by code_simp
  note inst = extract_metadata_delimiter[OF s p n, where read="?read" and tokenize="?tok"
      and embed_words="?emb" and filepath="''blogs/x.txt''" and self="?self"
      and words="[''title'', ''body'']" and v="[2]", unfolded h j]
  from inst have e: "extract_metadata ?c =
     (\<lparr>title = Some ''A'', author = None, category = None, url = Some ''u'',
       content_preview = Some ''Title: B\<newline>body''\<rparr>,
      ''Title: B\<newline>body'')"
    by simp
  from inst t have i: "doc_embeddings (index_single_blog ?read ?tok ?emb ?self ''blogs/x.txt'') =
       [(''x.txt'', [2])] \<and>
     blog_metadata (index_single_blog ?read ?tok ?emb ?self ''blogs/x.txt'') =
       [(''x.txt'', \<lparr>title = Some ''A'', author = None, category = None, url = Some ''u'',
                      content_preview = Some ''Title: B\<newline>body''\<rparr>)]"
    by (simp add: get_or_empty_def b new_engine_def)
  have rest: "model (index_single_blog ?read ?tok ?emb ?self ''blogs/x.txt'') = example_model \<and>
     blog_directory (index_single_blog ?read ?tok ?emb ?self ''blogs/x.txt'') = ''blogs'' \<and>
     word_to_blogs (index_single_blog ?read ?tok ?emb ?self ''blogs/x.txt'') = []"
    by (simp add: index_single_blog_def e t get_or_empty_def new_engine_def Let_def)
  from i rest have "index_single_blog ?read ?tok ?emb ?self ''blogs/x.txt'' =
     \<lparr>model = example_model, blog_directory = ''blogs'', word_to_blogs = [],
      blog_metadata =
        [(''x.txt'', \<lparr>title = Some ''A'', author = None, category = None, url = Some ''u'',
                      content_preview = Some ''Title: B\<newline>body''\<rparr>)],
      doc_embeddings = [(''x.txt'', [2])]\<rparr>"
    by (cases "index_single_blog ?read ?tok ?emb ?self ''blogs/x.txt''") simp
  with e s p t show ?thesis by simp
qed

text \<open>
  Claim C3 as stated takes any line that starts with \<open>=\<close> for the delimiter. A line
  \<^verbatim>\<open>=\<close> does not stop the scan: the label line after it still sets the title, and
  with no delimiter found the body is the whole file, header lines included.
\<close>

theorem extract_metadata_short_delimiter:
  "split_lines ''Title: A\<newline>=\<newline>Title: B\<newline>body'' =
     [''Title: A'', ''='', ''Title: B'', ''body''] \<and>
   prefix ''='' ''='' \<and>
   title (fst (extract_metadata ''Title: A\<newline>=\<newline>Title: B\<newline>body'')) = Some ''B'' \<and>
   snd (extract_metadata ''Title: A\<newline>=\<newline>Title: B\<newline>body'') =
     ''Title: A\<newline>=\<newline>Title: B\<newline>body''"
  by code_simp

end
